theory Spec2Isabelle
  imports Main
begin

section \<open>Python values, exceptions and the store\<close>

text \<open>
  The three modules of \<^verbatim>\<open>concrete_settings\<close> embedded here are
  \<^verbatim>\<open>__init__.py\<close> (the interpreter version check),
  \<^verbatim>\<open>validators/validator.py\<close> (the \<^verbatim>\<open>Validator\<close> protocol) and
  \<^verbatim>\<open>contrib/settings/uuid.py\<close> (\<^verbatim>\<open>UUIDSetting\<close>).

  Exceptions are values: a function that may raise returns the exception (if any)
  together with the state it leaves behind.
\<close>

datatype pyexn =
    ValueError
  | TypeError
  | AttributeError
  | ImportError string
  | ValidationError string
  | UninitializedError
  | SettingNameConflict

text \<open>
  Semantic types used as type hints. \<open>UUID\<close> is the class \<^verbatim>\<open>uuid.UUID\<close> that
  \<^verbatim>\<open>uuid.py\<close> passes as \<^verbatim>\<open>type_hint=UUID\<close>.
\<close>

datatype pytype = UUID | StrType | IntType | BoolType

text \<open>
  The Python objects a setting can be given. \<open>PUUID i\<close> is an instance of
  \<^verbatim>\<open>uuid.UUID\<close> whose \<^verbatim>\<open>int\<close> attribute is \<open>i\<close>; \<open>Undefined\<close> is the sentinel
  imported from \<^verbatim>\<open>concrete_settings\<close>; \<open>PRef a\<close> is a reference to the object
  with identity \<open>a\<close> (a \<^verbatim>\<open>Settings\<close> instance or a \<^verbatim>\<open>Setting\<close>).
\<close>

datatype pyval =
    PNone
  | PInt int
  | PStr string
  | PUUID int
  | Undefined
  | PRef nat

section \<open>The interpreter version check (\<^verbatim>\<open>__init__.py\<close>)\<close>

text \<open>
  \<^verbatim>\<open>PY_VERSION < PY_36\<close> compares two tuples of integers; Python orders tuples
  lexicographically, a proper prefix being smaller.
\<close>

fun tuple_less :: "int list \<Rightarrow> int list \<Rightarrow> bool" where
  "tuple_less [] [] = False"
| "tuple_less [] (y # ys) = True"
| "tuple_less (x # xs) [] = False"
| "tuple_less (x # xs) (y # ys) = (if x = y then tuple_less xs ys else x < y)"

definition PY_VERSION :: "int \<Rightarrow> int \<Rightarrow> int list" where
  "PY_VERSION major minor = [major, minor]"

definition PY_36 :: "int list" where
  "PY_36 = [3, 6]"

text \<open>Lines 9 to 13: the check itself; \<open>None\<close> when nothing is raised.\<close>

definition version_check :: "int \<Rightarrow> int \<Rightarrow> pyexn option" where
  "version_check major minor =
     (if tuple_less (PY_VERSION major minor) PY_36
      then Some (ImportError ''Python 3.6 or higher is required by concrete_settings'')
      else None)"

text \<open>
  The module body in order: the two \<^verbatim>\<open>import\<close> statements of lines 3 and 4 run
  first (their outcome is the parameter \<open>submodules\<close>: the imported modules are not
  part of the embedded sources), then the check.
\<close>

definition import_concrete_settings :: "pyexn option \<Rightarrow> int \<Rightarrow> int \<Rightarrow> pyexn option" where
  "import_concrete_settings submodules major minor =
     (case submodules of
        Some e \<Rightarrow> Some e
      | None \<Rightarrow> version_check major minor)"

section \<open>The \<^verbatim>\<open>Validator\<close> protocol (\<^verbatim>\<open>validators/validator.py\<close>)\<close>

text \<open>
  The signature of \<^verbatim>\<open>Validator.__call__\<close> as data (\<^verbatim>\<open>self\<close> apart): the
  parameters before the bare \<^verbatim>\<open>*\<close> can be passed by position or by keyword, the
  ones after it by keyword only.
\<close>

datatype param_kind = PositionalOrKeyword | KeywordOnly

record param =
  p_name :: string
  p_kind :: param_kind
  p_default :: "pyval option"

definition Validator_call :: "param list" where
  "Validator_call =
     [\<lparr>p_name = ''value'', p_kind = PositionalOrKeyword, p_default = None\<rparr>,
      \<lparr>p_name = ''name'', p_kind = KeywordOnly, p_default = Some PNone\<rparr>,
      \<lparr>p_name = ''owner'', p_kind = KeywordOnly, p_default = Some PNone\<rparr>,
      \<lparr>p_name = ''setting'', p_kind = KeywordOnly, p_default = Some PNone\<rparr>]"

text \<open>
  Python's binding of the arguments of a call to a signature without
  \<^verbatim>\<open>*args\<close> and \<^verbatim>\<open>**kwargs\<close>. Every mismatch raises \<^verbatim>\<open>TypeError\<close>: too many
  positional arguments, an unexpected or repeated keyword, a parameter given
  both by position and by keyword, a parameter without default left out.
\<close>

fun bind_param :: "(string \<times> pyval) list \<Rightarrow> (string \<times> pyval) list \<Rightarrow> param \<Rightarrow> pyval option" where
  "bind_param by_pos kw p =
     (case map_of by_pos (p_name p) of
        Some v \<Rightarrow> Some v
      | None \<Rightarrow> (case map_of kw (p_name p) of
                   Some v \<Rightarrow> Some v
                 | None \<Rightarrow> p_default p))"

fun collect_bound :: "param list \<Rightarrow> pyval option list \<Rightarrow> (string \<times> pyval) list option" where
  "collect_bound [] [] = Some []"
| "collect_bound (p # ps) (Some v # vs) =
     (case collect_bound ps vs of
        None \<Rightarrow> None
      | Some b \<Rightarrow> Some ((p_name p, v) # b))"
| "collect_bound _ _ = None"

definition bind_args ::
  "param list \<Rightarrow> pyval list \<Rightarrow> (string \<times> pyval) list \<Rightarrow> pyexn + (string \<times> pyval) list" where
  "bind_args sig pos kw =
     (let positional = map p_name (filter (\<lambda>p. p_kind p = PositionalOrKeyword) sig);
          by_pos = zip positional pos
      in if length positional < length pos then Inl TypeError
         else if \<not> list_all (\<lambda>k. k \<in> set (map p_name sig)) (map fst kw) then Inl TypeError
         else if \<not> distinct (map fst kw) then Inl TypeError
         else if list_ex (\<lambda>k. k \<in> set (map fst by_pos)) (map fst kw) then Inl TypeError
         else (case collect_bound sig (map (bind_param by_pos kw) sig) of
                 None \<Rightarrow> Inl TypeError
               | Some b \<Rightarrow> Inr b))"

text \<open>
  A validator conforming to the protocol: a callable with the signature
  \<open>Validator_call\<close> whose body, given the bound parameters, returns
  (\<open>None\<close>) or raises. Calling it binds the arguments first.
\<close>

type_synonym validator = "(string \<times> pyval) list \<Rightarrow> pyexn option"

definition call_validator ::
  "validator \<Rightarrow> pyval list \<Rightarrow> (string \<times> pyval) list \<Rightarrow> pyexn option" where
  "call_validator v pos kw =
     (case bind_args Validator_call pos kw of
        Inl e \<Rightarrow> Some e
      | Inr b \<Rightarrow> v b)"

section \<open>The standard library's \<^verbatim>\<open>UUID\<close> constructor\<close>

text \<open>
  \<^verbatim>\<open>uuid.py\<close> calls \<^verbatim>\<open>UUID(val)\<close> of Python's standard library, which is not
  part of the repository. \<open>UUIDSetting_set_value\<close> below takes the constructor as a
  parameter; \<open>py_UUID\<close> is CPython's constructor for one positional argument
  (\<^verbatim>\<open>hex\<close>), on strings of code points below 256:
  \<^verbatim>\<open>
  if [hex, bytes, bytes_le, fields, int].count(None) != 4: raise TypeError(...)
  hex = hex.replace('urn:', '').replace('uuid:', '')
  hex = hex.strip('{}').replace('-', '')
  if len(hex) != 32: raise ValueError('badly formed hexadecimal UUID string')
  int = int_(hex, 16)
  if not 0 <= int < 1<<128: raise ValueError('int is out of range (need a 128-bit value)')
  \<close>
  An argument that is not a string has no method \<^verbatim>\<open>replace\<close>: the attribute
  lookup raises \<^verbatim>\<open>AttributeError\<close>.
\<close>

fun starts_with :: "string \<Rightarrow> string \<Rightarrow> bool" where
  "starts_with [] s = True"
| "starts_with (p # ps) [] = False"
| "starts_with (p # ps) (c # cs) = (p = c \<and> starts_with ps cs)"

text \<open>
  \<^verbatim>\<open>s.replace(old, '')\<close> for a non-empty \<open>old\<close>: the occurrences of \<open>old\<close> are
  removed from left to right, without overlap. \<open>k\<close> counts the characters of the
  current occurrence still to skip.
\<close>

fun str_remove_from :: "string \<Rightarrow> nat \<Rightarrow> string \<Rightarrow> string" where
  "str_remove_from old k [] = []"
| "str_remove_from old k (c # cs) =
     (if 0 < k then str_remove_from old (k - 1) cs
      else if old \<noteq> [] \<and> starts_with old (c # cs) then str_remove_from old (length old - 1) cs
      else c # str_remove_from old 0 cs)"

definition str_remove :: "string \<Rightarrow> string \<Rightarrow> string" where
  "str_remove old s = str_remove_from old 0 s"

text \<open>\<^verbatim>\<open>s.strip(chars)\<close>: leading and trailing characters among \<open>chars\<close> removed.\<close>

definition str_strip :: "string \<Rightarrow> string \<Rightarrow> string" where
  "str_strip chars s =
     rev (dropWhile (\<lambda>c. c \<in> set chars) (rev (dropWhile (\<lambda>c. c \<in> set chars) s)))"

text \<open>
  \<^verbatim>\<open>int(s, 16)\<close> on a string: a non-ASCII space becomes a blank, then the
  literal is blanks, an optional sign, an optional \<^verbatim>\<open>0x\<close> prefix (one underscore
  may follow it), hexadecimal digits with single underscores between them,
  blanks. Anything else raises \<^verbatim>\<open>ValueError\<close> (\<open>None\<close> here).
\<close>

definition py_isspace :: "char \<Rightarrow> bool" where
  "py_isspace c = (c \<in> set [CHR 0x09, CHR 0x0A, CHR 0x0B, CHR 0x0C, CHR 0x0D, CHR 0x20])"

definition ascii_space :: "char \<Rightarrow> char" where
  "ascii_space c = (if c = CHR 0x85 \<or> c = CHR 0xA0 then CHR 0x20 else c)"

definition digit_value :: "char \<Rightarrow> nat option" where
  "digit_value c =
     (let n = (of_char c :: nat)
      in if 48 \<le> n \<and> n \<le> 57 then Some (n - 48)
         else if 97 \<le> n \<and> n \<le> 102 then Some (n - 87)
         else if 65 \<le> n \<and> n \<le> 70 then Some (n - 55)
         else None)"

fun hex_digits :: "int \<Rightarrow> bool \<Rightarrow> string \<Rightarrow> (int \<times> string) option" where
  "hex_digits acc us [] = (if us then None else Some (acc, []))"
| "hex_digits acc us (c # cs) =
     (if c = CHR ''_'' then (if us then None else hex_digits acc True cs)
      else (case digit_value c of
              Some d \<Rightarrow> hex_digits (16 * acc + int d) False cs
            | None \<Rightarrow> (if us then None else Some (acc, c # cs))))"

definition skip_sign :: "string \<Rightarrow> bool \<times> string" where
  "skip_sign s =
     (case s of
        [] \<Rightarrow> (False, s)
      | c # cs \<Rightarrow> if c = CHR ''+'' then (False, cs)
                  else if c = CHR ''-'' then (True, cs)
                  else (False, s))"

definition skip_prefix :: "string \<Rightarrow> string" where
  "skip_prefix s =
     (case s of
        a # b # cs \<Rightarrow>
          if a = CHR ''0'' \<and> (b = CHR ''x'' \<or> b = CHR ''X'')
          then (case cs of
                  [] \<Rightarrow> cs
                | u # ds \<Rightarrow> if u = CHR ''_'' then ds else cs)
          else s
      | _ \<Rightarrow> s)"

definition int_base16 :: "string \<Rightarrow> int option" where
  "int_base16 s =
     (let (neg, s2) = skip_sign (dropWhile py_isspace (map ascii_space s));
          s3 = skip_prefix s2
      in case s3 of
           [] \<Rightarrow> None
         | c # _ \<Rightarrow>
             if digit_value c = None then None
             else (case hex_digits 0 False s3 of
                     None \<Rightarrow> None
                   | Some (n, rest) \<Rightarrow>
                       if dropWhile py_isspace rest = [] then Some (if neg then - n else n)
                       else None))"

fun py_UUID :: "pyval \<Rightarrow> pyexn + pyval" where
  "py_UUID PNone = Inl TypeError"
| "py_UUID (PStr s) =
     (let hex = str_remove ''uuid:'' (str_remove ''urn:'' s);
          hex = str_remove ''-'' (str_strip ''{}'' hex)
      in if length hex \<noteq> 32 then Inl ValueError
         else (case int_base16 hex of
                 None \<Rightarrow> Inl ValueError
               | Some i \<Rightarrow> if \<not> (0 \<le> i \<and> i < 2 ^ 128) then Inl ValueError
                           else Inr (PUUID i)))"
| "py_UUID (PInt n) = Inl AttributeError"
| "py_UUID (PUUID i) = Inl AttributeError"
| "py_UUID Undefined = Inl AttributeError"
| "py_UUID (PRef a) = Inl AttributeError"

section \<open>The \<^verbatim>\<open>Setting\<close> descriptor and the \<^verbatim>\<open>Settings\<close> container\<close>

text \<open>
  A setting: its identity as an object, the initial value given at construction
  (\<open>Undefined\<close> when none), the documentation, the ordered validators, the type
  hint, the override flag and the attribute name it is bound to.
\<close>

record setting =
  s_id :: nat
  s_value :: pyval
  s_doc :: string
  s_validators :: "validator list"
  s_type_hint :: "pytype option"
  s_override :: bool
  s_name :: string

text \<open>
  The state a call runs in: \<open>heap\<close> is the per-instance storage of every
  \<^verbatim>\<open>Settings\<close> object (by identity, then by setting name); \<open>calls\<close> records every
  validator invocation so far, oldest first: the position of the validator in
  its chain, the arguments of the call and what it raised.
\<close>

record vcall =
  vc_index :: nat
  vc_pos :: "pyval list"
  vc_kw :: "(string \<times> pyval) list"
  vc_raised :: "pyexn option"

record world =
  heap :: "nat \<Rightarrow> string \<rightharpoonup> pyval"
  calls :: "vcall list"

definition fresh_world :: world where
  "fresh_world = \<lparr>heap = (\<lambda>a. Map.empty), calls = []\<rparr>"

text \<open>The validator invocations a call added to the record.\<close>

definition new_calls :: "world \<Rightarrow> world \<Rightarrow> vcall list" where
  "new_calls w w' = drop (length (calls w)) (calls w')"

text \<open>
  Modelled from the spec: \<^verbatim>\<open>Setting.__init__\<close>, whose module
  (\<^verbatim>\<open>concrete_settings/setting.py\<close>) is not among the sources. Section 6: a Setting
  is constructed with an initial value (or Undefined), a documentation string,
  ordered validators, an optional semantic type hint and an override flag.
  Section 4.5: it starts unbound (no name).
\<close>

definition Setting_init ::
  "nat \<Rightarrow> pyval \<Rightarrow> string \<Rightarrow> validator list \<Rightarrow> pytype option \<Rightarrow> bool \<Rightarrow> setting" where
  "Setting_init ident val doc validators type_hint override =
     \<lparr>s_id = ident, s_value = val, s_doc = doc, s_validators = validators,
      s_type_hint = type_hint, s_override = override, s_name = []\<rparr>"

text \<open>
  Modelled from the spec: the validator chain of \<^verbatim>\<open>Setting.set_value\<close>
  (section 4.1: each validator in declaration order with (value, name, owner,
  setting); the first validator that raises stops the chain). The value is
  passed by position and the other three by keyword, the one call the protocol's
  signature accepts with all four.
\<close>

definition validator_kwargs :: "setting \<Rightarrow> nat \<Rightarrow> (string \<times> pyval) list" where
  "validator_kwargs self owner =
     [(''name'', PStr (s_name self)), (''owner'', PRef owner), (''setting'', PRef (s_id self))]"

fun run_validators ::
  "nat \<Rightarrow> validator list \<Rightarrow> pyval list \<Rightarrow> (string \<times> pyval) list \<Rightarrow> vcall list
     \<Rightarrow> pyexn option \<times> vcall list" where
  "run_validators i [] pos kw log = (None, log)"
| "run_validators i (v # vs) pos kw log =
     (let r = call_validator v pos kw;
          log' = log @ [\<lparr>vc_index = i, vc_pos = pos, vc_kw = kw, vc_raised = r\<rparr>]
      in case r of
           Some e \<Rightarrow> (Some e, log')
         | None \<Rightarrow> run_validators (Suc i) vs pos kw log')"

text \<open>
  Modelled from the spec: \<^verbatim>\<open>Setting.set_value\<close> (section 4.1), not among the
  sources: run the chain; when a validator raises the error propagates and no
  value is stored; otherwise the value is stored in the owner's own storage.
\<close>

definition Setting_set_value :: "setting \<Rightarrow> nat \<Rightarrow> pyval \<Rightarrow> world \<Rightarrow> pyexn option \<times> world" where
  "Setting_set_value self owner val w =
     (case run_validators 0 (s_validators self) [val] (validator_kwargs self owner) (calls w) of
        (Some e, log) \<Rightarrow> (Some e, w\<lparr>calls := log\<rparr>)
      | (None, log) \<Rightarrow>
          (None, w\<lparr>heap := (heap w)(owner := (heap w owner)(s_name self \<mapsto> val)),
                   calls := log\<rparr>))"

text \<open>
  Modelled from the spec: \<^verbatim>\<open>Setting.get_value\<close> (sections 4.1, 4.5 and 7), not
  among the sources: the value bound for the owner; before any value was set,
  the initial value, and \<^verbatim>\<open>UninitializedError\<close> when that is the Undefined
  sentinel.
\<close>

definition Setting_get_value :: "setting \<Rightarrow> nat \<Rightarrow> world \<Rightarrow> pyexn + pyval" where
  "Setting_get_value self owner w =
     (case heap w owner (s_name self) of
        Some v \<Rightarrow> Inr v
      | None \<Rightarrow> if s_value self = Undefined then Inl UninitializedError
                else Inr (s_value self))"

text \<open>
  Modelled from the spec: the construction of a \<^verbatim>\<open>Settings\<close> container class
  (section 4.2), not among the sources. \<open>inherited\<close> is the effective set of the
  base classes, \<open>body\<close> the declarations of the class body in order. Each setting
  is told its name; a name already present (inherited, or declared earlier in
  the body) is replaced only by a declaration with \<^verbatim>\<open>override=True\<close>, and is a
  \<^verbatim>\<open>SettingNameConflict\<close> otherwise.
\<close>

fun collect_settings ::
  "(string \<rightharpoonup> setting) \<Rightarrow> (string \<times> setting) list \<Rightarrow> pyexn + (string \<rightharpoonup> setting)" where
  "collect_settings acc [] = Inr acc"
| "collect_settings acc ((n, s) # rest) =
     (if acc n \<noteq> None \<and> \<not> s_override s then Inl SettingNameConflict
      else collect_settings (acc(n \<mapsto> s\<lparr>s_name := n\<rparr>)) rest)"

definition Settings_class ::
  "(string \<rightharpoonup> setting) \<Rightarrow> (string \<times> setting) list \<Rightarrow> pyexn + (string \<rightharpoonup> setting)" where
  "Settings_class inherited body = collect_settings inherited body"

section \<open>\<^verbatim>\<open>UUIDSetting\<close> (\<^verbatim>\<open>contrib/settings/uuid.py\<close>)\<close>

text \<open>
  \<^verbatim>\<open>UUIDSetting.__init__\<close>: \<open>base\<close> is \<^verbatim>\<open>super().__init__\<close>; \<open>ignore\<close> holds every
  keyword argument other than \<^verbatim>\<open>doc\<close>, \<^verbatim>\<open>validators\<close> and \<^verbatim>\<open>override\<close>, as
  \<^verbatim>\<open>**ignore\<close> collects them, and is not used.
\<close>

definition UUIDSetting_init ::
  "(pyval \<Rightarrow> string \<Rightarrow> validator list \<Rightarrow> pytype option \<Rightarrow> bool \<Rightarrow> 's)
     \<Rightarrow> pyval \<Rightarrow> string \<Rightarrow> validator list \<Rightarrow> bool \<Rightarrow> (string \<times> 'a) list \<Rightarrow> 's" where
  "UUIDSetting_init base val doc validators override ignore =
     base val doc validators (Some UUID) override"

text \<open>
  \<^verbatim>\<open>UUIDSetting.set_value\<close>: \<open>uuid_ctor\<close> is the constructor \<^verbatim>\<open>UUID\<close>, \<open>base\<close> is
  \<^verbatim>\<open>super().set_value\<close>. Only \<^verbatim>\<open>ValueError\<close> is caught; any other exception of
  the constructor leaves the method before the base is called.
\<close>

definition UUIDSetting_set_value ::
  "(pyval \<Rightarrow> pyexn + pyval) \<Rightarrow> ('s \<Rightarrow> nat \<Rightarrow> pyval \<Rightarrow> 'w \<Rightarrow> pyexn option \<times> 'w)
     \<Rightarrow> 's \<Rightarrow> nat \<Rightarrow> pyval \<Rightarrow> 'w \<Rightarrow> pyexn option \<times> 'w" where
  "UUIDSetting_set_value uuid_ctor base self owner val w =
     (case uuid_ctor val of
        Inr u \<Rightarrow> base self owner u w
      | Inl e \<Rightarrow> if e = ValueError then base self owner val w else (Some e, w))"

section \<open>Properties\<close>


subsection \<open>Auxiliary facts\<close>

text \<open>
  The two strings of the scenario, through the constructor.
\<close>

lemma py_UUID_example:
  "py_UUID (PStr ''123e4567-e89b-12d3-a456-426614174000'')
     = Inr (PUUID 0x123e4567e89b12d3a456426614174000)"
  by code_simp

lemma py_UUID_not_a_uuid: "py_UUID (PStr ''not-a-uuid'') = Inl ValueError"
  by code_simp

text \<open>
  What a run of the validator chain adds to the record of calls: one entry per
  validator invoked, in chain order from position \<open>k\<close>, each with the arguments of
  the run and the outcome of the validator at that position; only the last
  entry can hold an exception, and the run's result is that exception, or
  \<open>None\<close> once every validator has been invoked and has returned.
\<close>

lemma run_validators_log:
  "run_validators k vs pos kw log = (r, log') \<Longrightarrow>
     \<exists>new. log' = log @ new
       \<and> map vc_index new = [k..<k + length new]
       \<and> length new \<le> length vs
       \<and> (\<forall>ev\<in>set new. vc_pos ev = pos \<and> vc_kw ev = kw)
       \<and> (\<forall>j<length new. vc_raised (new ! j) = call_validator (vs ! j) pos kw)
       \<and> (\<forall>j. Suc j < length new \<longrightarrow> vc_raised (new ! j) = None)
       \<and> (r = None \<longrightarrow> length new = length vs \<and> (\<forall>ev\<in>set new. vc_raised ev = None))
       \<and> (\<forall>e. r = Some e \<longrightarrow> new \<noteq> [] \<and> vc_raised (last new) = Some e)"
proof (induction vs arbitrary: k log r log')
  case Nil
  then show ?case by simp
next
  case (Cons v vs)
  let ?ev = "\<lparr>vc_index = k, vc_pos = pos, vc_kw = kw, vc_raised = call_validator v pos kw\<rparr>"
  show ?case
  proof (cases "call_validator v pos kw")
    case (Some e)
    with Cons.prems have "r = Some e" "log' = log @ [?ev]" by (auto simp: Let_def)
    then show ?thesis using Some
      by (intro exI [of _ "[?ev]"]) simp
  next
    case None
    with Cons.prems have "run_validators (Suc k) vs pos kw (log @ [?ev]) = (r, log')"
      by (simp add: Let_def)
    from Cons.IH [OF this] obtain new where new:
      "log' = (log @ [?ev]) @ new"
      "map vc_index new = [Suc k..<Suc k + length new]"
      "length new \<le> length vs"
      "\<forall>ev\<in>set new. vc_pos ev = pos \<and> vc_kw ev = kw"
      "\<forall>j<length new. vc_raised (new ! j) = call_validator (vs ! j) pos kw"
      "\<forall>j. Suc j < length new \<longrightarrow> vc_raised (new ! j) = None"
      "r = None \<longrightarrow> length new = length vs \<and> (\<forall>ev\<in>set new. vc_raised ev = None)"
      "\<forall>e. r = Some e \<longrightarrow> new \<noteq> [] \<and> vc_raised (last new) = Some e"
      by blast
    have 1: "log' = log @ (?ev # new)" using new(1) by simp
    have "[k..<Suc (k + length new)] = k # [Suc k..<Suc (k + length new)]"
      by (rule upt_conv_Cons) simp
    with new(2) have 2: "map vc_index (?ev # new) = [k..<k + length (?ev # new)]"
      by simp
    have 3: "length (?ev # new) \<le> length (v # vs)" using new(3) by simp
    have 4: "\<forall>ev\<in>set (?ev # new). vc_pos ev = pos \<and> vc_kw ev = kw" using new(4) by simp
    have 5: "\<forall>j<length (?ev # new). vc_raised ((?ev # new) ! j) = call_validator ((v # vs) ! j) pos kw"
      using new(5) by (auto simp: nth_Cons split: nat.splits)
    have 6: "\<forall>j. Suc j < length (?ev # new) \<longrightarrow> vc_raised ((?ev # new) ! j) = None"
      using new(6) None by (auto simp: nth_Cons split: nat.splits)
    have 7: "r = None \<longrightarrow> length (?ev # new) = length (v # vs) \<and> (\<forall>ev\<in>set (?ev # new). vc_raised ev = None)"
      using new(7) None by simp
    have 8: "\<forall>e. r = Some e \<longrightarrow> (?ev # new) \<noteq> [] \<and> vc_raised (last (?ev # new)) = Some e"
      using new(8) by simp
    from 1 2 3 4 5 6 7 8 show ?thesis by blast
  qed
qed

text \<open>
  The same for \<^verbatim>\<open>Setting.set_value\<close>, with its effect on the owner's storage.
\<close>

lemma Setting_set_value_log:
  assumes "Setting_set_value self owner val w = (r, w')"
  shows "calls w' = calls w @ new_calls w w'"
    and "map vc_index (new_calls w w') = [0..<length (new_calls w w')]"
    and "length (new_calls w w') \<le> length (s_validators self)"
    and "\<forall>ev\<in>set (new_calls w w'). vc_pos ev = [val] \<and> vc_kw ev = validator_kwargs self owner"
    and "\<forall>j<length (new_calls w w'). vc_raised (new_calls w w' ! j)
           = call_validator (s_validators self ! j) [val] (validator_kwargs self owner)"
    and "\<forall>j. Suc j < length (new_calls w w') \<longrightarrow> vc_raised (new_calls w w' ! j) = None"
    and "r = None \<longrightarrow> length (new_calls w w') = length (s_validators self)
           \<and> (\<forall>ev\<in>set (new_calls w w'). vc_raised ev = None)
           \<and> heap w' = (heap w)(owner := (heap w owner)(s_name self \<mapsto> val))"
    and "\<forall>e. r = Some e \<longrightarrow> new_calls w w' \<noteq> [] \<and> vc_raised (last (new_calls w w')) = Some e
           \<and> heap w' = heap w"
proof -
  obtain r0 log' where run:
    "run_validators 0 (s_validators self) [val] (validator_kwargs self owner) (calls w) = (r0, log')"
    by (cases "run_validators 0 (s_validators self) [val] (validator_kwargs self owner) (calls w)")
  from assms run have r: "r = r0" and c: "calls w' = log'"
    by (auto simp: Setting_set_value_def split: option.splits)
  from assms run have h: "r = None \<longrightarrow> heap w' = (heap w)(owner := (heap w owner)(s_name self \<mapsto> val))"
    "r \<noteq> None \<longrightarrow> heap w' = heap w"
    by (auto simp: Setting_set_value_def split: option.splits)
  from run_validators_log [OF run] obtain new where new:
      "log' = calls w @ new"
      "map vc_index new = [0..<0 + length new]"
      "length new \<le> length (s_validators self)"
      "\<forall>ev\<in>set new. vc_pos ev = [val] \<and> vc_kw ev = validator_kwargs self owner"
      "\<forall>j<length new. vc_raised (new ! j) = call_validator (s_validators self ! j) [val] (validator_kwargs self owner)"
      "\<forall>j. Suc j < length new \<longrightarrow> vc_raised (new ! j) = None"
      "r0 = None \<longrightarrow> length new = length (s_validators self) \<and> (\<forall>ev\<in>set new. vc_raised ev = None)"
      "\<forall>e. r0 = Some e \<longrightarrow> new \<noteq> [] \<and> vc_raised (last new) = Some e"
    by blast
  have n: "new_calls w w' = new" using c new(1) by (simp add: new_calls_def)
  show "calls w' = calls w @ new_calls w w'" using n c new(1) by simp
  show "map vc_index (new_calls w w') = [0..<length (new_calls w w')]" using n new(2) by simp
  show "length (new_calls w w') \<le> length (s_validators self)" using n new(3) by simp
  show "\<forall>ev\<in>set (new_calls w w'). vc_pos ev = [val] \<and> vc_kw ev = validator_kwargs self owner"
    using n new(4) by simp
  show "\<forall>j<length (new_calls w w'). vc_raised (new_calls w w' ! j)
           = call_validator (s_validators self ! j) [val] (validator_kwargs self owner)"
    using n new(5) by simp
  show "\<forall>j. Suc j < length (new_calls w w') \<longrightarrow> vc_raised (new_calls w w' ! j) = None"
    using n new(6) by simp
  show "r = None \<longrightarrow> length (new_calls w w') = length (s_validators self)
           \<and> (\<forall>ev\<in>set (new_calls w w'). vc_raised ev = None)
           \<and> heap w' = (heap w)(owner := (heap w owner)(s_name self \<mapsto> val))"
    using n new(7) r h by simp
  show "\<forall>e. r = Some e \<longrightarrow> new_calls w w' \<noteq> [] \<and> vc_raised (last (new_calls w w')) = Some e
           \<and> heap w' = heap w"
    using n new(8) r h by simp
qed

text \<open>
  The call the chain makes binds against the protocol's signature.
\<close>

lemma bind_validator_kwargs:
  "bind_args Validator_call [val] (validator_kwargs self owner)
     = Inr [(''value'', val), (''name'', PStr (s_name self)), (''owner'', PRef owner),
            (''setting'', PRef (s_id self))]"
  by (simp add: bind_args_def Validator_call_def validator_kwargs_def)

text \<open>
  A declaration without the override flag whose name is already present
  (before the body, or earlier in it) makes the collection fail.
\<close>

lemma collect_settings_conflict:
  "i < length body \<Longrightarrow> \<not> s_override (snd (body ! i)) \<Longrightarrow>
   acc (fst (body ! i)) \<noteq> None \<or> (\<exists>j<i. fst (body ! j) = fst (body ! i)) \<Longrightarrow>
   collect_settings acc body = Inl SettingNameConflict"
proof (induction body arbitrary: acc i)
  case Nil
  then show ?case by simp
next
  case (Cons d body)
  obtain n s where d: "d = (n, s)" by (cases d)
  show ?case
  proof (cases "acc n \<noteq> None \<and> \<not> s_override s")
    case True
    then show ?thesis using d by simp
  next
    case False
    let ?acc = "acc(n \<mapsto> s\<lparr>s_name := n\<rparr>)"
    have step: "collect_settings acc (d # body) = collect_settings ?acc body"
      using False d by auto
    show ?thesis
    proof (cases i)
      case 0
      with Cons.prems d False show ?thesis by auto
    next
      case (Suc i')
      with Cons.prems have i': "i' < length body" "\<not> s_override (snd (body ! i'))"
        by simp_all
      have "?acc (fst (body ! i')) \<noteq> None \<or> (\<exists>j<i'. fst (body ! j) = fst (body ! i'))"
      proof (cases "fst (body ! i') = n")
        case True
        then show ?thesis by simp
      next
        case neq: False
        from Cons.prems(3) Suc
        consider "acc (fst (body ! i')) \<noteq> None"
          | j where "j < Suc i'" "fst ((d # body) ! j) = fst (body ! i')"
          by auto
        then show ?thesis
        proof cases
          case 1
          then show ?thesis using neq by simp
        next
          case 2
          then show ?thesis using neq d by (cases j) auto
        qed
      qed
      then have "collect_settings ?acc body = Inl SettingNameConflict"
        using i' by (rule Cons.IH [of i' ?acc, rotated 2])
      with step show ?thesis by simp
    qed
  qed
qed

subsection \<open>C1: a failing coercion in \<^verbatim>\<open>UUIDSetting.set_value\<close>\<close>

text \<open>
  Claim C1, as amended: for every owner and every value on which the UUID
  constructor raises \<^verbatim>\<open>ValueError\<close>, \<^verbatim>\<open>UUIDSetting.set_value\<close> does not raise from
  the coercion step: the failure is caught locally and the original raw value
  is passed unchanged to the base \<^verbatim>\<open>Setting.set_value\<close>, whose outcome is the
  outcome of the call. This holds for any constructor and any base method.
\<close>

theorem UUIDSetting_set_value_ValueError:
  "uuid_ctor val = Inl ValueError \<Longrightarrow>
     UUIDSetting_set_value uuid_ctor base self owner val w = base self owner val w"
  by (simp add: UUIDSetting_set_value_def)

theorem UUIDSetting_set_value_ValueError_witness:
  "py_UUID (PStr ''not-a-uuid'') = Inl ValueError
   \<and> UUIDSetting_set_value py_UUID Setting_set_value
       (UUIDSetting_init (Setting_init 7) Undefined [] [] False ([] :: (string \<times> pyval) list))
       1 (PStr ''not-a-uuid'') fresh_world
     = Setting_set_value
       (UUIDSetting_init (Setting_init 7) Undefined [] [] False ([] :: (string \<times> pyval) list))
       1 (PStr ''not-a-uuid'') fresh_world"
  using UUIDSetting_set_value_ValueError [of py_UUID "PStr ''not-a-uuid''" Setting_set_value
    "UUIDSetting_init (Setting_init 7) Undefined [] [] False ([] :: (string \<times> pyval) list)"
    1 fresh_world] py_UUID_not_a_uuid
  by (simp del: py_UUID.simps)

text \<open>
  As stated for every value on which the coercion fails, C1 does not hold: the
  integer 5 has no \<^verbatim>\<open>replace\<close> method, the constructor raises
  \<^verbatim>\<open>AttributeError\<close>, the \<^verbatim>\<open>except ValueError\<close> clause does not catch it, and
  the call raises before the base method runs (which would have stored 5).
\<close>

theorem UUIDSetting_set_value_uncaught_counterexample:
  "py_UUID (PInt 5) = Inl AttributeError
   \<and> UUIDSetting_set_value py_UUID Setting_set_value
       (UUIDSetting_init (Setting_init 7) Undefined [] [] False ([] :: (string \<times> pyval) list))
       1 (PInt 5) fresh_world
     = (Some AttributeError, fresh_world)
   \<and> Setting_set_value
       (UUIDSetting_init (Setting_init 7) Undefined [] [] False ([] :: (string \<times> pyval) list))
       1 (PInt 5) fresh_world
     \<noteq> (Some AttributeError, fresh_world)"
  by (simp add: UUIDSetting_set_value_def UUIDSetting_init_def Setting_init_def
      Setting_set_value_def)

subsection \<open>C2: the UUID scenario\<close>

text \<open>
  Claim C2: given the string \<^verbatim>\<open>123e4567-e89b-12d3-a456-426614174000\<close>,
  \<^verbatim>\<open>UUIDSetting.set_value\<close> coerces it and hands the parsed UUID to the base method;
  when the call returns, the parsed UUID is what the owner's storage holds and
  what \<^verbatim>\<open>get_value\<close> returns. Given \<^verbatim>\<open>not-a-uuid\<close>, the coercion fails silently
  and the raw string is handed on, stored and returned unchanged.
\<close>

theorem UUIDSetting_scenario:
  "UUIDSetting_set_value py_UUID Setting_set_value self owner
       (PStr ''123e4567-e89b-12d3-a456-426614174000'') w
     = Setting_set_value self owner (PUUID 0x123e4567e89b12d3a456426614174000) w
   \<and> UUIDSetting_set_value py_UUID Setting_set_value self owner (PStr ''not-a-uuid'') w
     = Setting_set_value self owner (PStr ''not-a-uuid'') w
   \<and> (UUIDSetting_set_value py_UUID Setting_set_value self owner
         (PStr ''123e4567-e89b-12d3-a456-426614174000'') w = (None, w1) \<longrightarrow>
       heap w1 owner (s_name self) = Some (PUUID 0x123e4567e89b12d3a456426614174000)
       \<and> Setting_get_value self owner w1 = Inr (PUUID 0x123e4567e89b12d3a456426614174000))
   \<and> (UUIDSetting_set_value py_UUID Setting_set_value self owner (PStr ''not-a-uuid'') w
         = (None, w2) \<longrightarrow>
       heap w2 owner (s_name self) = Some (PStr ''not-a-uuid'')
       \<and> Setting_get_value self owner w2 = Inr (PStr ''not-a-uuid''))"
proof -
  have stored: "heap w' owner (s_name self) = Some x \<and> Setting_get_value self owner w' = Inr x"
    if "Setting_set_value self owner x w = (None, w')" for x w'
  proof -
    from Setting_set_value_log(7) [OF that]
    have "heap w' = (heap w)(owner := (heap w owner)(s_name self \<mapsto> x))" by simp
    then show ?thesis by (simp add: Setting_get_value_def)
  qed
  have 1: "UUIDSetting_set_value py_UUID Setting_set_value self owner
       (PStr ''123e4567-e89b-12d3-a456-426614174000'') w
     = Setting_set_value self owner (PUUID 0x123e4567e89b12d3a456426614174000) w"
    by (simp add: UUIDSetting_set_value_def py_UUID_example del: py_UUID.simps)
  have 2: "UUIDSetting_set_value py_UUID Setting_set_value self owner (PStr ''not-a-uuid'') w
     = Setting_set_value self owner (PStr ''not-a-uuid'') w"
    by (simp add: UUIDSetting_set_value_def py_UUID_not_a_uuid del: py_UUID.simps)
  show ?thesis
    unfolding 1 2 using stored by blast
qed

theorem UUIDSetting_scenario_witness:
  "UUIDSetting_set_value py_UUID Setting_set_value
      ((UUIDSetting_init (Setting_init 7) Undefined [] [] False
          ([] :: (string \<times> pyval) list))\<lparr>s_name := ''ID''\<rparr>)
      1 (PStr ''123e4567-e89b-12d3-a456-426614174000'') fresh_world
    = (None, \<lparr>heap = (\<lambda>a. Map.empty)
                 (1 := [''ID'' \<mapsto> PUUID 0x123e4567e89b12d3a456426614174000]),
               calls = []\<rparr>)
   \<and> Setting_get_value
      ((UUIDSetting_init (Setting_init 7) Undefined [] [] False
          ([] :: (string \<times> pyval) list))\<lparr>s_name := ''ID''\<rparr>) 1
      \<lparr>heap = (\<lambda>a. Map.empty)(1 := [''ID'' \<mapsto> PUUID 0x123e4567e89b12d3a456426614174000]),
       calls = []\<rparr>
    = Inr (PUUID 0x123e4567e89b12d3a456426614174000)
   \<and> UUIDSetting_set_value py_UUID Setting_set_value
      ((UUIDSetting_init (Setting_init 7) Undefined [] [] False
          ([] :: (string \<times> pyval) list))\<lparr>s_name := ''ID''\<rparr>)
      1 (PStr ''not-a-uuid'') fresh_world
    = (None, \<lparr>heap = (\<lambda>a. Map.empty)(1 := [''ID'' \<mapsto> PStr ''not-a-uuid'']), calls = []\<rparr>)
   \<and> Setting_get_value
      ((UUIDSetting_init (Setting_init 7) Undefined [] [] False
          ([] :: (string \<times> pyval) list))\<lparr>s_name := ''ID''\<rparr>) 1
      \<lparr>heap = (\<lambda>a. Map.empty)(1 := [''ID'' \<mapsto> PStr ''not-a-uuid'']), calls = []\<rparr>
    = Inr (PStr ''not-a-uuid'')"
proof -
  let ?u = "(UUIDSetting_init (Setting_init 7) Undefined [] [] False
          ([] :: (string \<times> pyval) list))\<lparr>s_name := ''ID''\<rparr>"
  let ?w1 = "\<lparr>heap = (\<lambda>a. Map.empty)
                 (1 := [''ID'' \<mapsto> PUUID 0x123e4567e89b12d3a456426614174000]),
             calls = []\<rparr>"
  let ?w2 = "\<lparr>heap = (\<lambda>a. Map.empty)(1 := [''ID'' \<mapsto> PStr ''not-a-uuid'']), calls = []\<rparr>"
  have 1: "UUIDSetting_set_value py_UUID Setting_set_value ?u 1
        (PStr ''123e4567-e89b-12d3-a456-426614174000'') fresh_world = (None, ?w1)"
    by (simp add: UUIDSetting_set_value_def py_UUID_example Setting_set_value_def
        UUIDSetting_init_def Setting_init_def fresh_world_def del: py_UUID.simps)
  have 2: "UUIDSetting_set_value py_UUID Setting_set_value ?u 1
        (PStr ''not-a-uuid'') fresh_world = (None, ?w2)"
    by (simp add: UUIDSetting_set_value_def py_UUID_not_a_uuid Setting_set_value_def
        UUIDSetting_init_def Setting_init_def fresh_world_def del: py_UUID.simps)
  from UUIDSetting_scenario [of ?u 1 fresh_world ?w1 ?w2] 1 2
  show ?thesis by (simp add: UUIDSetting_init_def Setting_init_def)
qed

subsection \<open>C3: the first validator that raises stops the chain\<close>

text \<open>
  Claim C3: in a call \<^verbatim>\<open>set_value(owner, val)\<close>, if the validator at position
  \<open>i\<close> of the chain raises \<open>e\<close>, then the validators invoked by the call are
  exactly those at positions \<open>0\<close> to \<open>i\<close>, once each and in order (none after
  \<open>i\<close>), those before \<open>i\<close> returned without raising, \<open>e\<close> propagates to the
  caller, and the storage is unchanged.
\<close>

theorem validator_chain_stops_at_first_raise:
  assumes run: "Setting_set_value self owner val w = (r, w')"
    and ev: "ev \<in> set (new_calls w w')"
    and raised: "vc_raised ev = Some e"
    and idx: "vc_index ev = i"
  shows "i < length (s_validators self)
    \<and> map vc_index (new_calls w w') = [0..<Suc i]
    \<and> (\<forall>j<i. vc_raised (new_calls w w' ! j) = None)
    \<and> r = Some e
    \<and> heap w' = heap w"
proof -
  let ?new = "new_calls w w'"
  note L = Setting_set_value_log [OF run]
  from ev obtain k where k: "k < length ?new" "?new ! k = ev"
    by (auto simp: in_set_conv_nth)
  have "vc_index (?new ! k) = map vc_index ?new ! k" using k(1) by simp
  also have "\<dots> = k" using L(2) k(1) by simp
  finally have ki: "k = i" using k(2) idx by simp
  have last: "Suc i = length ?new"
  proof (rule ccontr)
    assume "Suc i \<noteq> length ?new"
    with k(1) ki have "Suc i < length ?new" by simp
    with L(6) have "vc_raised (?new ! i) = None" by blast
    with k(2) ki raised show False by simp
  qed
  have evlast: "last ?new = ev"
    using last k ki by (metis diff_Suc_1 last_conv_nth length_0_conv nat.distinct(1))
  have rne: "r \<noteq> None"
  proof
    assume "r = None"
    with L(7) ev have "vc_raised ev = None" by blast
    with raised show False by simp
  qed
  then obtain e' where e': "r = Some e'" by auto
  with L(8) evlast raised have "e' = e" "heap w' = heap w" by auto
  moreover have "i < length (s_validators self)" using last L(3) by simp
  moreover have "map vc_index ?new = [0..<Suc i]" using L(2) last by simp
  moreover have "\<forall>j<i. vc_raised (?new ! j) = None" using L(6) last by simp
  ultimately show ?thesis using e' by simp
qed

theorem validator_chain_stops_at_first_raise_witness:
  "Setting_set_value
      ((Setting_init 7 Undefined []
          [\<lambda>b. None,
           \<lambda>b. if map_of b ''value'' = Some (PInt 5) then Some (ValidationError ''bad'') else None,
           \<lambda>b. Some TypeError]
          None False)\<lparr>s_name := ''PORT''\<rparr>)
      1 (PInt 5) fresh_world
    = (Some (ValidationError ''bad''),
       fresh_world\<lparr>calls :=
         [\<lparr>vc_index = 0, vc_pos = [PInt 5],
           vc_kw = [(''name'', PStr ''PORT''), (''owner'', PRef 1), (''setting'', PRef 7)],
           vc_raised = None\<rparr>,
          \<lparr>vc_index = 1, vc_pos = [PInt 5],
           vc_kw = [(''name'', PStr ''PORT''), (''owner'', PRef 1), (''setting'', PRef 7)],
           vc_raised = Some (ValidationError ''bad'')\<rparr>]\<rparr>)
   \<and> map vc_index (new_calls fresh_world
         (fresh_world\<lparr>calls :=
         [\<lparr>vc_index = 0, vc_pos = [PInt 5],
           vc_kw = [(''name'', PStr ''PORT''), (''owner'', PRef 1), (''setting'', PRef 7)],
           vc_raised = None\<rparr>,
          \<lparr>vc_index = 1, vc_pos = [PInt 5],
           vc_kw = [(''name'', PStr ''PORT''), (''owner'', PRef 1), (''setting'', PRef 7)],
           vc_raised = Some (ValidationError ''bad'')\<rparr>]\<rparr>)) = [0..<Suc 1]"
proof -
  let ?s = "(Setting_init 7 Undefined []
          [\<lambda>b. None,
           \<lambda>b. if map_of b ''value'' = Some (PInt 5) then Some (ValidationError ''bad'') else None,
           \<lambda>b. Some TypeError]
          None False)\<lparr>s_name := ''PORT''\<rparr>"
  let ?ev = "\<lparr>vc_index = 1, vc_pos = [PInt 5],
           vc_kw = [(''name'', PStr ''PORT''), (''owner'', PRef 1), (''setting'', PRef 7)],
           vc_raised = Some (ValidationError ''bad'')\<rparr>"
  let ?w = "fresh_world\<lparr>calls :=
         [\<lparr>vc_index = 0, vc_pos = [PInt 5],
           vc_kw = [(''name'', PStr ''PORT''), (''owner'', PRef 1), (''setting'', PRef 7)],
           vc_raised = None\<rparr>, ?ev]\<rparr>"
  have run: "Setting_set_value ?s 1 (PInt 5) fresh_world = (Some (ValidationError ''bad''), ?w)"
    by (simp add: Setting_set_value_def Setting_init_def fresh_world_def call_validator_def
        bind_args_def Validator_call_def validator_kwargs_def Let_def)
  have mem: "?ev \<in> set (new_calls fresh_world ?w)"
    by (simp add: new_calls_def fresh_world_def)
  from validator_chain_stops_at_first_raise [OF run mem, of "ValidationError ''bad''" 1] run
  show ?thesis by simp
qed

subsection \<open>C4: reading before any write\<close>

text \<open>
  Claim C4: as long as nothing has been stored for the setting in the owner
  (no \<^verbatim>\<open>set_value\<close> has been performed), \<^verbatim>\<open>get_value\<close> fails with
  \<^verbatim>\<open>UninitializedError\<close>, unless an initial value other than the Undefined
  sentinel was supplied at construction, in which case it returns that value.
\<close>

theorem get_value_before_set_value:
  "heap w owner (s_name self) = None \<Longrightarrow>
     Setting_get_value self owner w
       = (if s_value self = Undefined then Inl UninitializedError else Inr (s_value self))"
  by (simp add: Setting_get_value_def)

theorem get_value_before_set_value_witness:
  "heap fresh_world 1 (s_name (Setting_init 7 Undefined [] [] None False)) = None
   \<and> Setting_get_value (Setting_init 7 Undefined [] [] None False) 1 fresh_world
       = Inl UninitializedError
   \<and> Setting_get_value (Setting_init 7 (PInt 42) [] [] None False) 1 fresh_world
       = Inr (PInt 42)"
  using get_value_before_set_value [of fresh_world 1 "Setting_init 7 Undefined [] [] None False"]
    get_value_before_set_value [of fresh_world 1 "Setting_init 7 (PInt 42) [] [] None False"]
  by (simp add: fresh_world_def Setting_init_def)

subsection \<open>C5: name conflicts at class construction\<close>

text \<open>
  Claim C5: a declaration in a container's body without \<^verbatim>\<open>override=True\<close>
  whose name is inherited from a base container, or already declared earlier
  in the same body, makes the class construction fail with
  \<^verbatim>\<open>SettingNameConflict\<close>.
\<close>

theorem Settings_class_name_conflict:
  "i < length body \<Longrightarrow> \<not> s_override (snd (body ! i)) \<Longrightarrow>
   inherited (fst (body ! i)) \<noteq> None \<or> (\<exists>j<i. fst (body ! j) = fst (body ! i)) \<Longrightarrow>
   Settings_class inherited body = Inl SettingNameConflict"
  unfolding Settings_class_def by (rule collect_settings_conflict)

theorem Settings_class_name_conflict_witness:
  "Settings_class Map.empty
      [(''PORT'', Setting_init 7 (PInt 80) [] [] None False),
       (''PORT'', Setting_init 8 (PInt 81) [] [] None False)]
    = Inl SettingNameConflict
   \<and> Settings_class [''PORT'' \<mapsto> (Setting_init 7 (PInt 80) [] [] None False)\<lparr>s_name := ''PORT''\<rparr>]
      [(''HOST'', Setting_init 9 (PStr ''h'') [] [] None False),
       (''PORT'', Setting_init 8 (PInt 81) [] [] None False)]
    = Inl SettingNameConflict"
  using Settings_class_name_conflict [of 1
      "[(''PORT'', Setting_init 7 (PInt 80) [] [] None False),
        (''PORT'', Setting_init 8 (PInt 81) [] [] None False)]" Map.empty]
    Settings_class_name_conflict [of 1
      "[(''HOST'', Setting_init 9 (PStr ''h'') [] [] None False),
        (''PORT'', Setting_init 8 (PInt 81) [] [] None False)]"
      "[''PORT'' \<mapsto> (Setting_init 7 (PInt 80) [] [] None False)\<lparr>s_name := ''PORT''\<rparr>]"]
  by (simp add: Setting_init_def)

subsection \<open>C6: round trip\<close>

text \<open>
  Claim C6: after a \<^verbatim>\<open>set_value\<close> with \<open>v\<close> that returns, \<^verbatim>\<open>get_value\<close> returns
  \<open>v\<close> itself; for a \<^verbatim>\<open>UUIDSetting\<close> it returns the coerced value \<^verbatim>\<open>UUID(v)\<close>
  when the coercion succeeds, and \<open>v\<close> itself otherwise.
\<close>

theorem set_value_get_value_roundtrip:
  "(Setting_set_value self owner v w = (None, w') \<longrightarrow>
      Setting_get_value self owner w' = Inr v)
   \<and> (UUIDSetting_set_value uuid_ctor Setting_set_value self owner v w = (None, w') \<longrightarrow>
      Setting_get_value self owner w' = Inr (case uuid_ctor v of Inr u \<Rightarrow> u | Inl e \<Rightarrow> v))"
proof -
  have base: "Setting_get_value self owner w' = Inr x"
    if "Setting_set_value self owner x w = (None, w')" for x
  proof -
    from Setting_set_value_log(7) [OF that]
    have "heap w' = (heap w)(owner := (heap w owner)(s_name self \<mapsto> x))" by simp
    then show ?thesis by (simp add: Setting_get_value_def)
  qed
  show ?thesis
    using base by (auto simp: UUIDSetting_set_value_def split: sum.splits if_splits)
qed

theorem set_value_get_value_roundtrip_witness:
  "Setting_set_value ((Setting_init 7 Undefined [] [] None False)\<lparr>s_name := ''PORT''\<rparr>)
      1 (PInt 5) fresh_world
    = (None, \<lparr>heap = (\<lambda>a. Map.empty)(1 := [''PORT'' \<mapsto> PInt 5]), calls = []\<rparr>)
   \<and> Setting_get_value ((Setting_init 7 Undefined [] [] None False)\<lparr>s_name := ''PORT''\<rparr>) 1
        \<lparr>heap = (\<lambda>a. Map.empty)(1 := [''PORT'' \<mapsto> PInt 5]), calls = []\<rparr>
      = Inr (PInt 5)
   \<and> UUIDSetting_set_value py_UUID Setting_set_value
        ((Setting_init 7 Undefined [] [] (Some UUID) False)\<lparr>s_name := ''ID''\<rparr>)
        1 (PStr ''123e4567-e89b-12d3-a456-426614174000'') fresh_world
      = (None, \<lparr>heap = (\<lambda>a. Map.empty)
                   (1 := [''ID'' \<mapsto> PUUID 0x123e4567e89b12d3a456426614174000]),
                 calls = []\<rparr>)
   \<and> Setting_get_value ((Setting_init 7 Undefined [] [] (Some UUID) False)\<lparr>s_name := ''ID''\<rparr>) 1
        \<lparr>heap = (\<lambda>a. Map.empty)(1 := [''ID'' \<mapsto> PUUID 0x123e4567e89b12d3a456426614174000]),
         calls = []\<rparr>
      = Inr (PUUID 0x123e4567e89b12d3a456426614174000)"
proof -
  let ?s = "(Setting_init 7 Undefined [] [] None False)\<lparr>s_name := ''PORT''\<rparr>"
  let ?u = "(Setting_init 7 Undefined [] [] (Some UUID) False)\<lparr>s_name := ''ID''\<rparr>"
  let ?w1 = "\<lparr>heap = (\<lambda>a. Map.empty)(1 := [''PORT'' \<mapsto> PInt 5]), calls = []\<rparr>"
  let ?w2 = "\<lparr>heap = (\<lambda>a. Map.empty)
                   (1 := [''ID'' \<mapsto> PUUID 0x123e4567e89b12d3a456426614174000]),
             calls = []\<rparr>"
  have 1: "Setting_set_value ?s 1 (PInt 5) fresh_world = (None, ?w1)"
    by (simp add: Setting_set_value_def Setting_init_def fresh_world_def)
  have 2: "UUIDSetting_set_value py_UUID Setting_set_value ?u 1
        (PStr ''123e4567-e89b-12d3-a456-426614174000'') fresh_world = (None, ?w2)"
    by (simp add: UUIDSetting_set_value_def py_UUID_example Setting_set_value_def
        Setting_init_def fresh_world_def del: py_UUID.simps)
  from set_value_get_value_roundtrip [of ?s 1 "PInt 5" fresh_world ?w1 py_UUID]
    set_value_get_value_roundtrip [of ?u 1 "PStr ''123e4567-e89b-12d3-a456-426614174000''"
      fresh_world ?w2 py_UUID] 1 2
  show ?thesis by (simp add: py_UUID_example del: py_UUID.simps)
qed

subsection \<open>C7: the arguments of a validator call\<close>

text \<open>
  Claim C7: every validator invocation made by \<^verbatim>\<open>set_value\<close> passes the value
  as the one positional argument and \<^verbatim>\<open>name\<close>, \<^verbatim>\<open>owner\<close> and \<^verbatim>\<open>setting\<close> as
  keyword arguments; the call binds against the signature of
  \<^verbatim>\<open>Validator.__call__\<close>, the invoked validator is one of the setting's chain and
  its outcome is that of its body on the four bound parameters. When the call
  returns, every validator of the chain has been invoked.
\<close>

theorem validators_called_with_protocol_arguments:
  assumes run: "Setting_set_value self owner val w = (r, w')"
    and ev: "ev \<in> set (new_calls w w')"
  shows "vc_pos ev = [val]
    \<and> vc_kw ev = [(''name'', PStr (s_name self)), (''owner'', PRef owner),
                  (''setting'', PRef (s_id self))]
    \<and> bind_args Validator_call (vc_pos ev) (vc_kw ev)
        = Inr [(''value'', val), (''name'', PStr (s_name self)), (''owner'', PRef owner),
               (''setting'', PRef (s_id self))]
    \<and> vc_index ev < length (s_validators self)
    \<and> vc_raised ev
        = (s_validators self ! vc_index ev)
            [(''value'', val), (''name'', PStr (s_name self)), (''owner'', PRef owner),
             (''setting'', PRef (s_id self))]
    \<and> (r = None \<longrightarrow> map vc_index (new_calls w w') = [0..<length (s_validators self)])"
proof -
  let ?new = "new_calls w w'"
  note L = Setting_set_value_log [OF run]
  from ev obtain k where k: "k < length ?new" "?new ! k = ev"
    by (auto simp: in_set_conv_nth)
  have "vc_index (?new ! k) = map vc_index ?new ! k" using k(1) by simp
  also have "\<dots> = k" using L(2) k(1) by simp
  finally have ki: "vc_index ev = k" using k(2) by simp
  have args: "vc_pos ev = [val]" "vc_kw ev = validator_kwargs self owner"
    using L(4) ev by auto
  have "vc_raised ev = call_validator (s_validators self ! k) [val] (validator_kwargs self owner)"
    using L(5) k by auto
  then have raised: "vc_raised ev
        = (s_validators self ! vc_index ev)
            [(''value'', val), (''name'', PStr (s_name self)), (''owner'', PRef owner),
             (''setting'', PRef (s_id self))]"
    using ki by (simp add: call_validator_def bind_validator_kwargs)
  have lt: "vc_index ev < length (s_validators self)" using ki k(1) L(3) by simp
  have all: "r = None \<longrightarrow> map vc_index ?new = [0..<length (s_validators self)]"
    using L(2) L(7) by simp
  show ?thesis
    using args raised lt all bind_validator_kwargs [of val self owner]
    by (simp add: validator_kwargs_def)
qed

theorem validators_called_with_protocol_arguments_witness:
  "Setting_set_value
      ((Setting_init 7 Undefined []
          [\<lambda>b. if map_of b ''name'' = Some (PStr ''PORT'') then None else Some TypeError]
          None False)\<lparr>s_name := ''PORT''\<rparr>)
      1 (PInt 5) fresh_world
    = (None,
       \<lparr>heap = (\<lambda>a. Map.empty)(1 := [''PORT'' \<mapsto> PInt 5]),
        calls =
         [\<lparr>vc_index = 0, vc_pos = [PInt 5],
           vc_kw = [(''name'', PStr ''PORT''), (''owner'', PRef 1), (''setting'', PRef 7)],
           vc_raised = None\<rparr>]\<rparr>)
   \<and> bind_args Validator_call [PInt 5]
        [(''name'', PStr ''PORT''), (''owner'', PRef 1), (''setting'', PRef 7)]
      = Inr [(''value'', PInt 5), (''name'', PStr ''PORT''), (''owner'', PRef 1),
             (''setting'', PRef 7)]"
proof -
  let ?s = "(Setting_init 7 Undefined []
          [\<lambda>b. if map_of b ''name'' = Some (PStr ''PORT'') then None else Some TypeError]
          None False)\<lparr>s_name := ''PORT''\<rparr>"
  let ?ev = "\<lparr>vc_index = 0, vc_pos = [PInt 5],
           vc_kw = [(''name'', PStr ''PORT''), (''owner'', PRef 1), (''setting'', PRef 7)],
           vc_raised = None\<rparr>"
  let ?w = "\<lparr>heap = (\<lambda>a. Map.empty)(1 := [''PORT'' \<mapsto> PInt 5]), calls = [?ev]\<rparr>"
  have run: "Setting_set_value ?s 1 (PInt 5) fresh_world = (None, ?w)"
    by (simp add: Setting_set_value_def Setting_init_def fresh_world_def call_validator_def
        bind_args_def Validator_call_def validator_kwargs_def Let_def)
  have mem: "?ev \<in> set (new_calls fresh_world ?w)"
    by (simp add: new_calls_def fresh_world_def)
  from validators_called_with_protocol_arguments [OF run mem] run
  show ?thesis by (simp add: Setting_init_def)
qed

subsection \<open>C8: the type hint of a \<^verbatim>\<open>UUIDSetting\<close>\<close>

text \<open>
  Claim C8: \<^verbatim>\<open>UUIDSetting.__init__\<close> calls the base initialiser with
  \<^verbatim>\<open>type_hint=UUID\<close> whatever extra keyword arguments it was given (they are
  dropped, a caller's \<^verbatim>\<open>type_hint\<close> among them), so every constructed
  \<^verbatim>\<open>UUIDSetting\<close> has the type hint \<open>UUID\<close>.
\<close>

theorem UUIDSetting_init_type_hint:
  "UUIDSetting_init base val doc validators override ignore
     = base val doc validators (Some UUID) override
   \<and> s_type_hint (UUIDSetting_init (Setting_init ident) val doc validators override ignore)
     = Some UUID"
  by (simp add: UUIDSetting_init_def Setting_init_def)

subsection \<open>C9: the interpreter version check\<close>

text \<open>
  Claim C9: with a version \<^verbatim>\<open>(major, minor)\<close> below \<^verbatim>\<open>(3, 6)\<close> the check
  raises \<^verbatim>\<open>ImportError\<close>, and so does the import of the package once its first
  two import statements have completed; from \<^verbatim>\<open>(3, 6)\<close> on the check passes
  and raises nothing.
\<close>

theorem version_check_python_36:
  "(major < 3 \<or> (major = 3 \<and> minor < 6) \<longrightarrow>
      version_check major minor
        = Some (ImportError ''Python 3.6 or higher is required by concrete_settings'')
      \<and> import_concrete_settings None major minor
        = Some (ImportError ''Python 3.6 or higher is required by concrete_settings''))
   \<and> (\<not> (major < 3 \<or> (major = 3 \<and> minor < 6)) \<longrightarrow>
      version_check major minor = None
      \<and> import_concrete_settings None major minor = None)"
  by (auto simp: version_check_def import_concrete_settings_def PY_VERSION_def PY_36_def)

theorem version_check_python_36_witness:
  "import_concrete_settings None 3 5
     = Some (ImportError ''Python 3.6 or higher is required by concrete_settings'')
   \<and> version_check 2 7
     = Some (ImportError ''Python 3.6 or higher is required by concrete_settings'')
   \<and> version_check 3 6 = None
   \<and> import_concrete_settings None 3 11 = None"
  using version_check_python_36 [of 3 5] version_check_python_36 [of 2 7]
    version_check_python_36 [of 3 6] version_check_python_36 [of 3 11]
  by simp

subsection \<open>C10: keyword-only parameters of the protocol\<close>

text \<open>
  Claim C10: in \<^verbatim>\<open>Validator.__call__\<close> the parameters \<^verbatim>\<open>name\<close>, \<^verbatim>\<open>owner\<close> and
  \<^verbatim>\<open>setting\<close> are keyword-only and default to \<^verbatim>\<open>None\<close>: a call with the value
  as sole positional argument binds, the three others being \<^verbatim>\<open>None\<close>, and so
  invokes any conforming validator; a second positional argument is a
  \<^verbatim>\<open>TypeError\<close>.
\<close>

theorem Validator_call_keyword_only:
  "map (\<lambda>p. (p_name p, p_kind p, p_default p)) (tl Validator_call)
     = [(''name'', KeywordOnly, Some PNone), (''owner'', KeywordOnly, Some PNone),
        (''setting'', KeywordOnly, Some PNone)]
   \<and> bind_args Validator_call [v] []
     = Inr [(''value'', v), (''name'', PNone), (''owner'', PNone), (''setting'', PNone)]
   \<and> call_validator f [v] []
     = f [(''value'', v), (''name'', PNone), (''owner'', PNone), (''setting'', PNone)]
   \<and> bind_args Validator_call (v # x # xs) kw = Inl TypeError"
  by (simp add: bind_args_def Validator_call_def call_validator_def)

end
